theory Spec2Isabelle
  imports Main "HOL-Library.AList" "HOL-Library.Sublist"
begin

section \<open>Strings and paths\<close>

text \<open>
  The program is \<^verbatim>\<open>make_transparent_blocks.py\<close>. It works on the file system through
  \<^verbatim>\<open>pathlib\<close>, \<^verbatim>\<open>shutil\<close>, \<^verbatim>\<open>PIL.Image\<close>, \<^verbatim>\<open>json\<close> and \<^verbatim>\<open>uuid\<close>. The model
  passes an explicit world (the file tree, the source of random UUIDs and a log of the
  mutations performed) through every call, and returns an exception as a value.

  A path is the list of its components below the root: \<open>[]\<close> is \<^verbatim>\<open>/\<close>,
  \<open>[''a'', ''b.png'']\<close> is \<^verbatim>\<open>/a/b.png\<close>. The paths the functions of the program work on
  are absolute and normalised: \<^verbatim>\<open>main\<close> makes them so with \<^verbatim>\<open>Path.resolve()\<close>, from the
  strings of the command line and the current directory. There are no symbolic links and
  no permissions. Strings are lists of 8-bit characters; \<^verbatim>\<open>str.lower\<close> is modelled on the
  ASCII letters. Globbing and comparison of names are case sensitive, as on POSIX. The
  library calls are modelled as CPython 3.11 has them.
\<close>

type_synonym path = "string list"

definition str_path :: "path \<Rightarrow> string" where
  "str_path p = (if p = [] then ''/'' else concat (map (\<lambda>c. CHR ''/'' # c) p))"

definition Path_name :: "path \<Rightarrow> string" where
  "Path_name p = (if p = [] then [] else last p)"

text \<open>\<^verbatim>\<open>s.rfind(c)\<close>: the highest index of \<open>c\<close> in \<open>s\<close>, or \<open>-1\<close>.\<close>

fun rfind :: "string \<Rightarrow> char \<Rightarrow> int" where
  "rfind [] c = - 1"
| "rfind (x # xs) c =
     (if 0 \<le> rfind xs c then rfind xs c + 1 else if x = c then 0 else - 1)"

text \<open>
  \<^verbatim>\<open>PurePath.suffix\<close> and \<^verbatim>\<open>PurePath.stem\<close>:
  \<^verbatim>\<open>i = name.rfind('.'); if 0 < i < len(name) - 1: name[i:] else ''\<close>, and the stem is
  \<^verbatim>\<open>name[:i]\<close> under the same test, the whole name otherwise.
\<close>

definition Path_suffix :: "path \<Rightarrow> string" where
  "Path_suffix p =
     (let nm = Path_name p; i = rfind nm CHR ''.'' in
      if 0 < i \<and> i < int (length nm) - 1 then drop (nat i) nm else [])"

definition Path_stem :: "path \<Rightarrow> string" where
  "Path_stem p =
     (let nm = Path_name p; i = rfind nm CHR ''.'' in
      if 0 < i \<and> i < int (length nm) - 1 then take (nat i) nm else nm)"

definition char_lower :: "char \<Rightarrow> char" where
  "char_lower c =
     (case map_of (zip ''ABCDEFGHIJKLMNOPQRSTUVWXYZ'' ''abcdefghijklmnopqrstuvwxyz'') c of
        Some l \<Rightarrow> l
      | None \<Rightarrow> c)"

definition lower :: "string \<Rightarrow> string" where
  "lower s = map char_lower s"

definition startswith :: "string \<Rightarrow> string \<Rightarrow> bool" where
  "startswith s pre = (take (length pre) s = pre)"

definition endswith :: "string \<Rightarrow> string \<Rightarrow> bool" where
  "endswith s suf = (length suf \<le> length s \<and> drop (length s - length suf) s = suf)"

text \<open>\<^verbatim>\<open>sub in s\<close> on strings.\<close>

fun str_contains :: "string \<Rightarrow> string \<Rightarrow> bool" where
  "str_contains sub [] = (sub = [])"
| "str_contains sub (c # cs) = (startswith (c # cs) sub \<or> str_contains sub cs)"

text \<open>\<^verbatim>\<open>s.split("/")\<close>.\<close>

fun split_sep :: "string \<Rightarrow> string list" where
  "split_sep [] = [[]]"
| "split_sep (c # cs) =
     (if c = CHR ''/'' then [] # split_sep cs
      else (case split_sep cs of
              [] \<Rightarrow> [[c]]
            | x # xs \<Rightarrow> (c # x) # xs))"

section \<open>Exceptions and results\<close>

text \<open>
  The exceptions the program or the library calls it makes can raise. \<open>Unmodelled\<close>
  marks a library behaviour the model does not describe (renaming a directory); the
  program never reaches it.
\<close>

datatype error =
    FileNotFoundError string
  | FileExistsError
  | NotADirectoryError
  | IsADirectoryError
  | SameFileError
  | ValueError string
  | Unmodelled string

datatype 'a result = Return 'a | Raise error

definition enoent :: error where
  "enoent = FileNotFoundError ''[Errno 2] No such file or directory''"

text \<open>
  \<^verbatim>\<open>PurePath.with_suffix(suffix)\<close>: \<^verbatim>\<open>ValueError\<close> for a suffix holding a separator, a
  non-empty suffix not starting with a dot, the suffix \<^verbatim>\<open>"."\<close>, and a path with an empty
  name; otherwise the old suffix (if any) is replaced by the new one.
\<close>

definition Path_with_suffix :: "path \<Rightarrow> string \<Rightarrow> path result" where
  "Path_with_suffix p sfx =
     (if CHR ''/'' \<in> set sfx then Raise (ValueError ''Invalid suffix'')
      else if (sfx \<noteq> [] \<and> \<not> startswith sfx ''.'') \<or> sfx = ''.''
        then Raise (ValueError ''Invalid suffix'')
      else
        let nm = Path_name p in
        if nm = [] then Raise (ValueError ''empty name'')
        else
          let old_sfx = Path_suffix p;
              nm' = (if old_sfx = [] then nm @ sfx
                     else take (length nm - length old_sfx) nm @ sfx)
          in Return (butlast p @ [nm']))"

section \<open>File contents and the world\<close>

text \<open>
  File contents are kept at the level the program produces them: an image as PIL holds it
  (what \<^verbatim>\<open>Image.save\<close> encodes as PNG), a JSON value (the text \<^verbatim>\<open>json.dumps(v, indent=2)\<close>),
  a zip archive as the list of its members, or uninterpreted bytes. The encoders
  themselves (PNG, JSON text, deflate) are outside the model, as is file metadata.
\<close>

record image =
  im_mode :: string
  im_size :: "nat \<times> nat"
  im_pixels :: "(nat \<times> nat \<times> nat \<times> nat) list"

text \<open>\<^verbatim>\<open>Image.new(mode, size, color)\<close>: every pixel has the given colour.\<close>

definition Image_new :: "string \<Rightarrow> nat \<times> nat \<Rightarrow> nat \<times> nat \<times> nat \<times> nat \<Rightarrow> image" where
  "Image_new m sz color =
     \<lparr>im_mode = m, im_size = sz, im_pixels = replicate (fst sz * snd sz) color\<rparr>"

datatype json =
    JInt int
  | JStr string
  | JList "json list"
  | JDict "(string \<times> json) list"

text \<open>
  A zip member is a relative path with the member's data, \<open>None\<close> for a directory
  entry. \<open>Zip_open\<close> is the content of an archive that has been opened for writing and
  not closed yet.
\<close>

datatype content =
    Bytes "nat list"
  | Png image
  | Json_text json
  | Zip "(path \<times> content option) list"
  | Zip_open

datatype node = File content | Dir

datatype event =
    Made_dir path
  | Wrote path content
  | Unlinked path
  | Renamed path path

text \<open>
  The world: the file tree as an association list from paths to nodes (the first entry
  for a path is the one that counts), the current directory of the process, the values
  \<^verbatim>\<open>str(uuid.uuid4())\<close> will return with the number already drawn, and the log of the
  mutations done so far. In a file tree every entry lies in a directory; the calls below
  keep it so.
\<close>

record world =
  files :: "(path \<times> node) list"
  cwd :: path
  uuid_source :: "nat \<Rightarrow> string"
  uuid_drawn :: nat
  trace :: "event list"

definition node_at :: "world \<Rightarrow> path \<Rightarrow> node option" where
  "node_at w p = (if p = [] then Some Dir else map_of (files w) p)"

definition Path_exists :: "world \<Rightarrow> path \<Rightarrow> bool" where
  "Path_exists w p = (node_at w p \<noteq> None)"

definition Path_is_dir :: "world \<Rightarrow> path \<Rightarrow> bool" where
  "Path_is_dir w p = (node_at w p = Some Dir)"

definition put :: "path \<Rightarrow> node \<Rightarrow> world \<Rightarrow> world" where
  "put p n w = w\<lparr>files := AList.update p n (files w)\<rparr>"

definition remove :: "path \<Rightarrow> world \<Rightarrow> world" where
  "remove p w = w\<lparr>files := AList.delete p (files w)\<rparr>"

definition log :: "event \<Rightarrow> world \<Rightarrow> world" where
  "log e w = w\<lparr>trace := trace w @ [e]\<rparr>"

text \<open>Sequencing: an exception ends the computation, keeping the world reached.\<close>

definition and_then ::
  "'a result \<times> world \<Rightarrow> ('a \<Rightarrow> world \<Rightarrow> 'b result \<times> world) \<Rightarrow> 'b result \<times> world" where
  "and_then r k = (case r of (Raise e, w) \<Rightarrow> (Raise e, w) | (Return x, w) \<Rightarrow> k x w)"

section \<open>Library calls\<close>

text \<open>
  \<^verbatim>\<open>Path(s).resolve()\<close>: \<^verbatim>\<open>os.path.realpath\<close> starts from the root for a string that
  begins with a separator and from the current directory otherwise, and goes through the
  components of the string: an empty one and \<^verbatim>\<open>.\<close> are skipped, \<^verbatim>\<open>..\<close> drops the last
  component reached (the root stays), any other one is appended, whether it exists or
  not. A null character in the string is a \<^verbatim>\<open>ValueError\<close>.
\<close>

definition realpath_step :: "path \<Rightarrow> string \<Rightarrow> path" where
  "realpath_step path name =
     (if name = [] \<or> name = ''.'' then path
      else if name = ''..'' then butlast path
      else path @ [name])"

definition Path_resolve :: "world \<Rightarrow> string \<Rightarrow> path result" where
  "Path_resolve w s =
     (if CHR 0x00 \<in> set s then Raise (ValueError ''embedded null byte'')
      else Return (foldl realpath_step (if startswith s ''/'' then [] else cwd w) (split_sep s)))"

text \<open>
  What the system reports for a path it cannot reach: the first of its ancestors that is
  not a directory is a file (\<^verbatim>\<open>ENOTDIR\<close>) or missing (\<^verbatim>\<open>ENOENT\<close>). \<open>stat_error\<close> is the
  error of a call on a path that does not exist.
\<close>

definition ancestor_error :: "world \<Rightarrow> path \<Rightarrow> error option" where
  "ancestor_error w p =
     (case find (\<lambda>q. node_at w q \<noteq> Some Dir) (prefixes (butlast p)) of
        None \<Rightarrow> None
      | Some q \<Rightarrow>
          (case node_at w q of
             Some (File c) \<Rightarrow> Some NotADirectoryError
           | _ \<Rightarrow> Some enoent))"

definition stat_error :: "world \<Rightarrow> path \<Rightarrow> error" where
  "stat_error w p = (case ancestor_error w p of Some e \<Rightarrow> e | None \<Rightarrow> enoent)"

text \<open>
  \<^verbatim>\<open>open(p, "w")\<close>, write, close: the ancestors of the path must be directories and the
  path must not be one; an existing file is replaced.
\<close>

definition write_file :: "path \<Rightarrow> content \<Rightarrow> world \<Rightarrow> unit result \<times> world" where
  "write_file p c w =
     (case ancestor_error w p of
        Some e \<Rightarrow> (Raise e, w)
      | None \<Rightarrow>
          (case node_at w p of
             Some Dir \<Rightarrow> (Raise IsADirectoryError, w)
           | _ \<Rightarrow> (Return (), log (Wrote p c) (put p (File c) w))))"

definition os_mkdir :: "path \<Rightarrow> world \<Rightarrow> unit result \<times> world" where
  "os_mkdir p w =
     (case ancestor_error w p of
        Some e \<Rightarrow> (Raise e, w)
      | None \<Rightarrow>
          (case node_at w p of
             Some n \<Rightarrow> (Raise FileExistsError, w)
           | None \<Rightarrow> (Return (), log (Made_dir p) (put p Dir w))))"

text \<open>
  \<^verbatim>\<open>Path.mkdir(parents=..., exist_ok=True)\<close>, as pathlib writes it: try \<^verbatim>\<open>os.mkdir\<close>; on
  \<^verbatim>\<open>FileNotFoundError\<close> make the parent with \<^verbatim>\<open>parents=True\<close> and then the directory
  itself with \<^verbatim>\<open>parents=False\<close>; on another \<^verbatim>\<open>OSError\<close> re-raise unless the path is a
  directory. \<open>mkdir_no_parents\<close> is the call with \<^verbatim>\<open>parents=False\<close>, \<open>Path_mkdir\<close> the
  call with \<^verbatim>\<open>parents=True\<close>, the only one the program makes.
\<close>

definition mkdir_no_parents :: "path \<Rightarrow> world \<Rightarrow> unit result \<times> world" where
  "mkdir_no_parents p w =
     (case os_mkdir p w of
        (Return u, w') \<Rightarrow> (Return (), w')
      | (Raise (FileNotFoundError m), w') \<Rightarrow> (Raise (FileNotFoundError m), w)
      | (Raise e, w') \<Rightarrow> if \<not> Path_is_dir w p then (Raise e, w) else (Return (), w))"

function Path_mkdir :: "path \<Rightarrow> world \<Rightarrow> unit result \<times> world" where
  "Path_mkdir p w =
     (case os_mkdir p w of
        (Return u, w') \<Rightarrow> (Return (), w')
      | (Raise (FileNotFoundError m), w') \<Rightarrow>
          if butlast p = p then (Raise (FileNotFoundError m), w)
          else (case Path_mkdir (butlast p) w of
                  (Raise e, w1) \<Rightarrow> (Raise e, w1)
                | (Return u, w1) \<Rightarrow> mkdir_no_parents p w1)
      | (Raise e, w') \<Rightarrow> if \<not> Path_is_dir w p then (Raise e, w) else (Return (), w))"
  by pat_completeness auto
termination
proof (relation "measure (\<lambda>(p, w). length p)")
  show "wf (measure (\<lambda>(p, w). length p))" by simp
next
  fix p :: path and w :: world
  assume "butlast p \<noteq> p"
  then have "p \<noteq> []" by auto
  then show "((butlast p, w), (p, w)) \<in> measure (\<lambda>(p, w). length p)" by simp
qed

text \<open>
  The names in a directory (\<^verbatim>\<open>os.scandir\<close>), each once, in the order the file system
  gives them; and \<^verbatim>\<open>Path.glob("*" + ext)\<close> for a literal \<open>ext\<close>: the entries of the
  directory whose name ends in \<open>ext\<close>, hidden ones and directories included, listed
  when the iteration starts.
\<close>

definition iterdir :: "world \<Rightarrow> path \<Rightarrow> string list" where
  "iterdir w d =
     remdups (map (\<lambda>e. last (fst e))
       (filter (\<lambda>e. fst e \<noteq> [] \<and> butlast (fst e) = d) (files w)))"

definition Path_glob_star :: "world \<Rightarrow> path \<Rightarrow> string \<Rightarrow> path list" where
  "Path_glob_star w d ext = map (\<lambda>n. d @ [n]) (filter (\<lambda>n. endswith n ext) (iterdir w d))"

text \<open>
  \<^verbatim>\<open>shutil.copy2(src, dst)\<close>: a destination that is a directory stands for the file of
  the source's name inside it; copying a file onto itself is \<^verbatim>\<open>SameFileError\<close>; the
  source is opened before the destination.
\<close>

definition shutil_copy2 :: "path \<Rightarrow> path \<Rightarrow> world \<Rightarrow> unit result \<times> world" where
  "shutil_copy2 src dst w =
     (let dst' = (if Path_is_dir w dst then dst @ [Path_name src] else dst) in
      if src = dst' \<and> Path_exists w src then (Raise SameFileError, w)
      else
        (case node_at w src of
           None \<Rightarrow> (Raise (stat_error w src), w)
         | Some Dir \<Rightarrow> (Raise IsADirectoryError, w)
         | Some (File c) \<Rightarrow> write_file dst' c w))"

text \<open>
  \<^verbatim>\<open>os.path.splitext(name)[1]\<close>: the part from the last dot on, unless every character
  before that dot is a dot too.
\<close>

definition splitext_ext :: "string \<Rightarrow> string" where
  "splitext_ext nm =
     (let dotIndex = rfind nm CHR ''.'' in
      if 0 \<le> dotIndex \<and> list_ex (\<lambda>c. c \<noteq> CHR ''.'') (take (nat dotIndex) nm)
      then drop (nat dotIndex) nm else [])"

text \<open>
  \<^verbatim>\<open>Image.save(path)\<close> with no format given: the format comes from the lowercased
  extension of the file name, and an extension PIL does not know is a \<^verbatim>\<open>ValueError\<close>
  raised before the file is opened. Only \<^verbatim>\<open>.png\<close> is modelled as known: the names the
  program saves to end in \<^verbatim>\<open>.png\<close>, so their extension is \<^verbatim>\<open>.png\<close> or empty.
\<close>

definition Image_save :: "image \<Rightarrow> path \<Rightarrow> world \<Rightarrow> unit result \<times> world" where
  "Image_save img p w =
     (let ext = lower (splitext_ext (Path_name p)) in
      if ext \<noteq> ''.png'' then (Raise (ValueError (''unknown file extension: '' @ ext)), w)
      else write_file p (Png img) w)"

definition Path_write_text :: "path \<Rightarrow> content \<Rightarrow> world \<Rightarrow> unit result \<times> world" where
  "Path_write_text p text w = write_file p text w"

text \<open>\<^verbatim>\<open>json.dumps(v, indent=2)\<close>: the text of the value.\<close>

definition json_dumps :: "json \<Rightarrow> content" where
  "json_dumps v = Json_text v"

text \<open>\<^verbatim>\<open>str(uuid.uuid4())\<close>: the next value of the random source.\<close>

definition uuid4 :: "world \<Rightarrow> string \<times> world" where
  "uuid4 w = (uuid_source w (uuid_drawn w), w\<lparr>uuid_drawn := Suc (uuid_drawn w)\<rparr>)"

text \<open>
  The members \<^verbatim>\<open>shutil.make_archive\<close> puts into the archive of \<open>root\<close>: everything
  strictly below it, under its path relative to \<open>root\<close>.
\<close>

definition zip_members :: "world \<Rightarrow> path \<Rightarrow> (path \<times> content option) list" where
  "zip_members w root =
     map (\<lambda>p. (drop (length root) p,
                case node_at w p of Some (File c) \<Rightarrow> Some c | Some Dir \<Rightarrow> None | None \<Rightarrow> None))
       (filter (strict_prefix root) (remdups (map fst (files w))))"

text \<open>
  \<^verbatim>\<open>shutil.make_archive(base_name, "zip", root_dir)\<close>: \<open>root_dir\<close> must be a directory;
  the directory of the archive is made if it does not exist (\<^verbatim>\<open>os.makedirs\<close>, which on
  a missing path does what \<open>Path_mkdir\<close> does); the archive \<^verbatim>\<open>base_name + ".zip"\<close> is
  opened for writing, the tree is walked, and the archive is closed.
\<close>

definition shutil_make_archive :: "path \<Rightarrow> path \<Rightarrow> world \<Rightarrow> unit result \<times> world" where
  "shutil_make_archive base_name root_dir w =
     (case node_at w root_dir of
        None \<Rightarrow> (Raise (stat_error w root_dir), w)
      | Some (File old) \<Rightarrow> (Raise NotADirectoryError, w)
      | Some Dir \<Rightarrow>
          (let zip_filename = butlast base_name @ [Path_name base_name @ ''.zip''];
               archive_dir = butlast base_name
           in and_then
                (if Path_exists w archive_dir then (Return (), w) else Path_mkdir archive_dir w)
                (\<lambda>u w1. and_then (write_file zip_filename Zip_open w1)
                   (\<lambda>u w2. write_file zip_filename (Zip (zip_members w2 root_dir)) w2))))"

text \<open>\<^verbatim>\<open>Path.unlink()\<close> and \<^verbatim>\<open>Path.rename(dst)\<close> (POSIX \<^verbatim>\<open>rename\<close>) of a file.\<close>

definition Path_unlink :: "path \<Rightarrow> world \<Rightarrow> unit result \<times> world" where
  "Path_unlink p w =
     (case node_at w p of
        None \<Rightarrow> (Raise (stat_error w p), w)
      | Some Dir \<Rightarrow> (Raise IsADirectoryError, w)
      | Some (File c) \<Rightarrow> (Return (), log (Unlinked p) (remove p w)))"

definition Path_rename :: "path \<Rightarrow> path \<Rightarrow> world \<Rightarrow> unit result \<times> world" where
  "Path_rename src dst w =
     (case node_at w src of
        None \<Rightarrow> (Raise (stat_error w src), w)
      | Some Dir \<Rightarrow> (Raise (Unmodelled ''rename of a directory''), w)
      | Some (File c) \<Rightarrow>
          if src = dst then (Return (), w)
          else
            (case ancestor_error w dst of
               Some e \<Rightarrow> (Raise e, w)
             | None \<Rightarrow>
                 (case node_at w dst of
                    Some Dir \<Rightarrow> (Raise IsADirectoryError, w)
                  | _ \<Rightarrow>
                      (Return (), log (Renamed src dst) (put dst (File c) (remove src w))))))"

section \<open>The program\<close>

text \<open>The body of the loop of \<^verbatim>\<open>make_transparent_blocks\<close>, and the loop.\<close>

definition is_diamond_texture :: "path \<Rightarrow> bool" where
  \<comment> \<open>\<^verbatim>\<open>"diamond" in png_path.stem.lower()\<close>\<close>
  "is_diamond_texture png_path = str_contains ''diamond'' (lower (Path_stem png_path))"

definition loop_body :: "path \<Rightarrow> image \<Rightarrow> path \<Rightarrow> world \<Rightarrow> unit result \<times> world" where
  "loop_body target_blocks transparent_img png_path w =
     (let target_path = target_blocks @ [Path_name png_path] in
      if is_diamond_texture png_path
      then shutil_copy2 png_path target_path w
      else Image_save transparent_img target_path w)"

fun for_png_path :: "path \<Rightarrow> image \<Rightarrow> path list \<Rightarrow> world \<Rightarrow> unit result \<times> world" where
  "for_png_path target_blocks transparent_img [] w = (Return (), w)"
| "for_png_path target_blocks transparent_img (png_path # rest) w =
     (case loop_body target_blocks transparent_img png_path w of
        (Raise e, w') \<Rightarrow> (Raise e, w')
      | (Return u, w') \<Rightarrow> for_png_path target_blocks transparent_img rest w')"

definition blocks_not_found :: "path \<Rightarrow> error" where
  "blocks_not_found source_blocks =
     FileNotFoundError
       (CHR 0x27 # ''blocks'' @ CHR 0x27 # '' folder not found at '' @ str_path source_blocks)"

definition make_transparent_blocks :: "path \<Rightarrow> path \<Rightarrow> world \<Rightarrow> unit result \<times> world" where
  "make_transparent_blocks source_blocks target_blocks w =
     (if \<not> Path_is_dir w source_blocks then (Raise (blocks_not_found source_blocks), w)
      else
        and_then (Path_mkdir target_blocks w)
          (\<lambda>u w1.
             let transparent_img = Image_new ''RGBA'' (16, 16) (0, 0, 0, 0) in
             for_png_path target_blocks transparent_img
               (Path_glob_star w1 source_blocks ''.png'') w1))"

definition manifest_json :: "string \<Rightarrow> string \<Rightarrow> string \<Rightarrow> string \<Rightarrow> json" where
  "manifest_json nm descr header_uuid module_uuid =
     JDict
       [(''format_version'', JInt 2),
        (''header'',
           JDict
             [(''description'', JStr descr),
              (''name'', JStr nm),
              (''uuid'', JStr header_uuid),
              (''version'', JList [JInt 1, JInt 0, JInt 0]),
              (''min_engine_version'', JList [JInt 1, JInt 16, JInt 0])]),
        (''modules'',
           JList
             [JDict
                [(''type'', JStr ''resources''),
                 (''uuid'', JStr module_uuid),
                 (''version'', JList [JInt 1, JInt 0, JInt 0])]])]"

definition write_manifest :: "path \<Rightarrow> string \<Rightarrow> string \<Rightarrow> world \<Rightarrow> unit result \<times> world" where
  "write_manifest pack_root nm descr w =
     and_then (Path_mkdir pack_root w)
       (\<lambda>u w1.
          let (header_uuid, w2) = uuid4 w1;
              (module_uuid, w3) = uuid4 w2;
              manifest = manifest_json nm descr header_uuid module_uuid
          in Path_write_text (pack_root @ [''manifest.json'']) (json_dumps manifest) w3)"

definition write_default_icon :: "path \<Rightarrow> world \<Rightarrow> unit result \<times> world" where
  "write_default_icon pack_root w =
     (let icon_path = pack_root @ [''pack_icon.png''] in
      if Path_exists w icon_path then (Return (), w)
      else
        let icon = Image_new ''RGBA'' (256, 256) (0, 0, 0, 0) in
        Image_save icon icon_path w)"

definition build_mcpack :: "path \<Rightarrow> path \<Rightarrow> world \<Rightarrow> unit result \<times> world" where
  "build_mcpack pack_root output_file0 w =
     (case Path_with_suffix output_file0 ''.mcpack'' of
        Raise e \<Rightarrow> (Raise e, w)
      | Return output_file \<Rightarrow>
     (case Path_with_suffix output_file ''.zip'' of
        Raise e \<Rightarrow> (Raise e, w)
      | Return temp_zip \<Rightarrow>
     (case Path_with_suffix temp_zip [] of
        Raise e \<Rightarrow> (Raise e, w)
      | Return base_name \<Rightarrow>
          and_then (shutil_make_archive base_name pack_root w)
            (\<lambda>u w1.
               and_then
                 (if Path_exists w1 output_file then Path_unlink output_file w1
                  else (Return (), w1))
                 (\<lambda>u w2. Path_rename temp_zip output_file w2)))))"

text \<open>
  The parsed command line: \<^verbatim>\<open>source_textures\<close>, \<^verbatim>\<open>--output-pack\<close>, \<^verbatim>\<open>--name\<close> and
  \<^verbatim>\<open>--description\<close> as the strings given, and \<^verbatim>\<open>--no-mcpack\<close>.
\<close>

record args =
  source_textures :: string
  output_pack :: string
  pack_name :: string
  pack_description :: string
  no_mcpack :: bool

definition source_not_found :: "path \<Rightarrow> error" where
  "source_not_found source_root =
     FileNotFoundError (''Source folder does not exist: '' @ str_path source_root)"

definition main :: "args \<Rightarrow> world \<Rightarrow> unit result \<times> world" where
  "main a w =
     (case Path_resolve w (source_textures a) of
        Raise e \<Rightarrow> (Raise e, w)
      | Return source_root \<Rightarrow>
          if \<not> Path_is_dir w source_root then (Raise (source_not_found source_root), w)
          else
            let source_blocks = source_root @ [''blocks''] in
            (case Path_resolve w (output_pack a) of
               Raise e \<Rightarrow> (Raise e, w)
             | Return pack_root \<Rightarrow>
                 let target_blocks = pack_root @ [''textures'', ''blocks''] in
                 and_then (make_transparent_blocks source_blocks target_blocks w)
                   (\<lambda>u w1.
                      and_then (write_manifest pack_root (pack_name a) (pack_description a) w1)
                        (\<lambda>u w2.
                           and_then (write_default_icon pack_root w2)
                             (\<lambda>u w3.
                                if \<not> no_mcpack a then
                                  (case Path_with_suffix pack_root ''.mcpack'' of
                                     Raise e \<Rightarrow> (Raise e, w3)
                                   | Return mcpack_path \<Rightarrow>
                                       build_mcpack pack_root mcpack_path w3)
                                else (Return (), w3))))))"

section \<open>Notions used in the statements\<close>

text \<open>
  \<open>grown_by_dirs w w' qs\<close>: the world \<open>w'\<close> is \<open>w\<close> with the directories \<open>qs\<close> made, in
  this order, and nothing else changed. \<open>copy_destination\<close> is the path a texture is
  written to: the file of its name in \<open>target_blocks\<close>, or, where that path is a
  directory, the file of its name inside that directory (which is where
  \<^verbatim>\<open>shutil.copy2\<close> puts it). \<open>written_paths\<close> lists the paths of the writes of a log.
\<close>

definition grown_by_dirs :: "world \<Rightarrow> world \<Rightarrow> path list \<Rightarrow> bool" where
  "grown_by_dirs w w' qs =
     (files w' = files w @ map (\<lambda>q. (q, Dir)) qs
      \<and> trace w' = trace w @ map Made_dir qs
      \<and> uuid_source w' = uuid_source w \<and> uuid_drawn w' = uuid_drawn w)"

definition copy_destination :: "world \<Rightarrow> path \<Rightarrow> path \<Rightarrow> path" where
  "copy_destination w target_blocks png_path =
     (let target_path = target_blocks @ [Path_name png_path] in
      if Path_is_dir w target_path then target_path @ [Path_name png_path] else target_path)"

fun written_paths :: "event list \<Rightarrow> path list" where
  "written_paths [] = []"
| "written_paths (Wrote p c # es) = p # written_paths es"
| "written_paths (e # es) = written_paths es"

text \<open>
  What the system makes of a path string as it is given, without \<^verbatim>\<open>resolve()\<close>: the
  test \<^verbatim>\<open>Path(s).is_dir()\<close>. The components are walked from the root or the current
  directory, and each one passed through has to be a directory, also before a \<^verbatim>\<open>..\<close>.
\<close>

fun os_walk :: "world \<Rightarrow> path \<Rightarrow> string list \<Rightarrow> path option" where
  "os_walk w dir [] = Some dir"
| "os_walk w dir (name # names) =
     (if \<not> Path_is_dir w dir then None else os_walk w (realpath_step dir name) names)"

definition given_is_dir :: "world \<Rightarrow> string \<Rightarrow> bool" where
  "given_is_dir w s =
     (CHR 0x00 \<notin> set s \<and>
      (case os_walk w (if startswith s ''/'' then [] else cwd w)
              (filter (\<lambda>name. name \<noteq> [] \<and> name \<noteq> ''.'') (split_sep s)) of
         None \<Rightarrow> False
       | Some p \<Rightarrow> Path_is_dir w p))"

section \<open>Example worlds\<close>

text \<open>Concrete file trees and command lines on which the theorems below are run.\<close>

definition example_uuids :: "nat \<Rightarrow> string" where
  "example_uuids n = replicate (Suc n) CHR ''u''"

definition w_empty :: world where
  "w_empty = \<lparr>files = [], cwd = [], uuid_source = example_uuids, uuid_drawn = 0, trace = []\<rparr>"

definition w_no_blocks :: world where
  "w_no_blocks =
     \<lparr>files = [([''src''], Dir), ([''src'', ''readme.txt''], File (Bytes [1]))],
      cwd = [], uuid_source = example_uuids, uuid_drawn = 0, trace = []\<rparr>"

definition w_icon :: world where
  "w_icon =
     \<lparr>files = [([''pack''], Dir), ([''pack'', ''pack_icon.png''], File (Bytes [7]))],
      cwd = [], uuid_source = example_uuids, uuid_drawn = 0, trace = []\<rparr>"

definition a_example :: args where
  "a_example =
     \<lparr>source_textures = ''src'', output_pack = ''dist/Pack'',
      pack_name = ''XRay'', pack_description = ''Hides blocks'', no_mcpack = False\<rparr>"

definition w_home :: world where
  "w_home =
     \<lparr>files = [([''home''], Dir), ([''home'', ''blocks''], Dir),
               ([''home'', ''blocks'', ''stone.png''], File (Bytes [1]))],
      cwd = [''home''], uuid_source = example_uuids, uuid_drawn = 0, trace = []\<rparr>"

definition a_dotdot :: args where
  "a_dotdot =
     \<lparr>source_textures = ''nonexistent/..'', output_pack = ''dist/Pack'',
      pack_name = ''XRay'', pack_description = ''Hides blocks'', no_mcpack = True\<rparr>"

definition w_hidden :: world where
  "w_hidden =
     \<lparr>files = [([''src''], Dir), ([''src'', ''blocks''], Dir),
               ([''src'', ''blocks'', ''stone.png''], File (Bytes [1])),
               ([''src'', ''blocks'', ''.png''], File (Bytes [2])),
               ([''out''], Dir)],
      cwd = [], uuid_source = example_uuids, uuid_drawn = 0, trace = []\<rparr>"

definition w_dist_file :: world where
  "w_dist_file =
     \<lparr>files = [([''src''], Dir), ([''src'', ''blocks''], Dir),
               ([''src'', ''blocks'', ''stone.png''], File (Bytes [1])),
               ([''dist''], File (Bytes [2]))],
      cwd = [], uuid_source = example_uuids, uuid_drawn = 0, trace = []\<rparr>"




definition w_manifest :: world where
  "w_manifest =
     \<lparr>files = [([''pack''], Dir), ([''pack'', ''manifest.json''], File (Bytes [5]))],
      cwd = [], uuid_source = example_uuids, uuid_drawn = 0, trace = []\<rparr>"

text \<open>
  The world that \<^verbatim>\<open>build_mcpack\<close> leaves when it returns, from the world in which the
  directory of the archive exists: the temporary zip is opened and written, a file at the
  output path is unlinked, and the zip is renamed to the output path.
\<close>

definition after_archive :: "world \<Rightarrow> path \<Rightarrow> path \<Rightarrow> path \<Rightarrow> world" where
  "after_archive wa root temp_zip output_file =
     (let wb = log (Wrote temp_zip Zip_open) (put temp_zip (File Zip_open) wa);
          es = zip_members wb root;
          w1 = log (Wrote temp_zip (Zip es)) (put temp_zip (File (Zip es)) wb);
          w2 = (if Path_exists w1 output_file
                then log (Unlinked output_file) (remove output_file w1) else w1)
      in log (Renamed temp_zip output_file)
           (put output_file (File (Zip es)) (remove temp_zip w2)))"


section \<open>Basic facts about the world\<close>

text \<open>The definitions that evaluate a run on a concrete world.\<close>

lemmas run_defs =
  main_def make_transparent_blocks_def write_manifest_def write_default_icon_def
  build_mcpack_def and_then_def Let_def loop_body_def is_diamond_texture_def
  Path_resolve_def realpath_step_def startswith_def endswith_def
  os_mkdir_def mkdir_no_parents_def ancestor_error_def stat_error_def write_file_def
  Path_glob_star_def iterdir_def shutil_copy2_def Image_save_def splitext_ext_def
  Path_write_text_def json_dumps_def uuid4_def shutil_make_archive_def zip_members_def
  Path_unlink_def Path_rename_def Path_with_suffix_def Path_suffix_def Path_stem_def
  Path_name_def lower_def char_lower_def
  node_at_def Path_is_dir_def Path_exists_def put_def remove_def log_def enoent_def


lemma node_at_root [simp]: "node_at w [] = Some Dir"
  by (simp add: node_at_def)

lemma node_at_put:
  "node_at (put p n w) q = (if q = [] then Some Dir else if q = p then Some n else node_at w q)"
  by (simp add: node_at_def put_def update_conv')


lemma node_at_log [simp]: "node_at (log e w) q = node_at w q"
  by (simp add: node_at_def log_def)

lemma trace_put [simp]: "trace (put p n w) = trace w"
  by (simp add: put_def)

lemma trace_remove [simp]: "trace (remove p w) = trace w"
  by (simp add: remove_def)

lemma trace_log [simp]: "trace (log e w) = trace w @ [e]"
  by (simp add: log_def)

lemma uuid_put [simp]:
  "uuid_source (put p n w) = uuid_source w" "uuid_drawn (put p n w) = uuid_drawn w"
  by (simp_all add: put_def)

lemma uuid_remove [simp]:
  "uuid_source (remove p w) = uuid_source w" "uuid_drawn (remove p w) = uuid_drawn w"
  by (simp_all add: remove_def)

lemma uuid_log [simp]:
  "uuid_source (log e w) = uuid_source w" "uuid_drawn (log e w) = uuid_drawn w"
  by (simp_all add: log_def)

lemma write_file_cases:
  assumes "write_file p c w = (r, w')"
  shows "(r = Return () \<and> w' = log (Wrote p c) (put p (File c) w) \<and> p \<noteq> []
           \<and> node_at w p \<noteq> Some Dir)
       \<or> (\<exists>e. r = Raise e \<and> w' = w)"
  using assms
  by (auto simp: write_file_def split: option.splits node.splits)

lemma splitext_pack_icon: "lower (splitext_ext ''pack_icon.png'') = ''.png''"
  by (simp add: splitext_ext_def lower_def char_lower_def)

section \<open>Making directories\<close>

lemma update_fresh: "map_of al k = None \<Longrightarrow> AList.update k v al = al @ [(k, v)]"
  by (induction al) auto

lemma grown_refl: "grown_by_dirs w w []"
  by (simp add: grown_by_dirs_def)

lemma grown_trans:
  "grown_by_dirs w w1 qs \<Longrightarrow> grown_by_dirs w1 w2 rs \<Longrightarrow> grown_by_dirs w w2 (qs @ rs)"
  by (simp add: grown_by_dirs_def)

lemma os_mkdir_cases:
  assumes "os_mkdir p w = (r, w')"
  shows "(r = Return () \<and> grown_by_dirs w w' [p] \<and> node_at w p = None \<and> p \<noteq> [])
       \<or> (\<exists>e. r = Raise e \<and> w' = w)"
proof (cases "node_at w p")
  case None
  then have pne: "p \<noteq> []" by (auto simp: node_at_def)
  with None have m: "map_of (files w) p = None" by (simp add: node_at_def)
  have g: "grown_by_dirs w (log (Made_dir p) (put p Dir w)) [p]"
    by (simp add: grown_by_dirs_def put_def log_def update_fresh [OF m])
  from assms None pne g show ?thesis
    by (auto simp: os_mkdir_def split: option.splits node.splits)
next
  case (Some n)
  with assms show ?thesis by (auto simp: os_mkdir_def split: option.splits)
qed

lemma mkdir_no_parents_cases:
  assumes "mkdir_no_parents p w = (r, w')"
  shows "(r = Return () \<and> (grown_by_dirs w w' [p] \<and> node_at w p = None \<and> p \<noteq> [] \<or> w' = w \<and> Path_is_dir w p))
       \<or> (\<exists>e. r = Raise e \<and> w' = w)"
proof -
  obtain r0 w0 where o: "os_mkdir p w = (r0, w0)" by (cases "os_mkdir p w")
  from os_mkdir_cases [OF o] assms o show ?thesis
    by (auto simp: mkdir_no_parents_def split: result.splits error.splits if_splits)
qed

lemma map_of_const:
  "map_of (map (\<lambda>q. (q, v)) qs) q = (if q \<in> set qs then Some v else None)"
  by (induction qs) auto

lemma grown_node_at:
  "grown_by_dirs w w' qs \<Longrightarrow>
     node_at w' q = (if node_at w q = None \<and> q \<in> set qs then Some Dir else node_at w q)"
  by (auto simp: grown_by_dirs_def node_at_def map_add_def map_of_const split: option.splits)

lemma Path_mkdir_shape:
  "Path_mkdir p w = (r, w') \<Longrightarrow>
     \<exists>qs. grown_by_dirs w w' qs \<and> (\<forall>q \<in> set qs. prefix q p \<and> q \<noteq> [])
          \<and> (r = Return () \<longrightarrow> Path_is_dir w' p)"
proof (induction p w arbitrary: r w' rule: Path_mkdir.induct)
  case (1 p w)
  obtain r0 w0 where o: "os_mkdir p w = (r0, w0)" by (cases "os_mkdir p w")
  note run = "1.prems" [unfolded Path_mkdir.simps [of p w] o, simplified]
  from os_mkdir_cases [OF o] show ?case
  proof
    assume a: "r0 = Return () \<and> grown_by_dirs w w0 [p] \<and> node_at w p = None \<and> p \<noteq> []"
    with run have "r = Return ()" "w' = w0" by simp_all
    moreover from a have "Path_is_dir w0 p"
      by (simp add: Path_is_dir_def grown_node_at [of w w0 "[p]"])
    ultimately show ?thesis using a by (intro exI [of _ "[p]"]) simp
  next
    assume "\<exists>e. r0 = Raise e \<and> w0 = w"
    then obtain e where e: "r0 = Raise e" "w0 = w" by blast
    show ?thesis
    proof (cases "\<exists>m. e = FileNotFoundError m")
      case False
      with run e have "r = Raise e \<and> w' = w \<or> r = Return () \<and> w' = w \<and> Path_is_dir w p"
        by (cases e) (auto split: if_splits)
      then show ?thesis by (intro exI [of _ "[]"]) (auto simp: grown_refl)
    next
      case True
      then obtain m where m: "e = FileNotFoundError m" by blast
      show ?thesis
      proof (cases "butlast p = p")
        case True
        with run e m have "r = Raise e" "w' = w" by simp_all
        then show ?thesis by (intro exI [of _ "[]"]) (simp add: grown_refl)
      next
        case False
        obtain r1 w1 where rec: "Path_mkdir (butlast p) w = (r1, w1)"
          by (cases "Path_mkdir (butlast p) w")
        from "1.IH" [OF o [symmetric] e(1) m False rec]
        obtain qs where qs: "grown_by_dirs w w1 qs" "\<forall>q \<in> set qs. prefix q (butlast p) \<and> q \<noteq> []"
          by blast
        have pre: "\<forall>q \<in> set qs. prefix q p \<and> q \<noteq> []"
          using qs(2) by (meson prefix_order.order_trans prefixeq_butlast)
        show ?thesis
        proof (cases r1)
          case (Raise e1)
          with run e m False rec have "r = Raise e1" "w' = w1" by simp_all
          with qs(1) pre show ?thesis by (intro exI [of _ qs]) simp
        next
          case (Return u)
          with run e m False rec have np: "mkdir_no_parents p w1 = (r, w')" by simp
          from mkdir_no_parents_cases [OF np] show ?thesis
          proof (elim disjE conjE exE)
            assume "r = Return ()" "grown_by_dirs w1 w' [p]" "node_at w1 p = None" "p \<noteq> []"
            moreover from this have "Path_is_dir w' p"
              by (simp add: Path_is_dir_def grown_node_at [of w1 w' "[p]"])
            ultimately show ?thesis
              using grown_trans [OF qs(1), of w' "[p]"] pre
              by (intro exI [of _ "qs @ [p]"]) auto
          next
            assume "r = Return ()" "w' = w1" "Path_is_dir w1 p"
            with qs(1) pre show ?thesis by (intro exI [of _ qs]) simp
          next
            fix e2 assume "r = Raise e2" "w' = w1"
            with qs(1) pre show ?thesis by (intro exI [of _ qs]) simp
          qed
        qed
      qed
    qed
  qed
qed

section \<open>The loop over the textures\<close>

lemma copy_destination_name [simp]: "Path_name (copy_destination w tgt pp) = Path_name pp"
  by (simp add: copy_destination_def Path_name_def Let_def)

lemma copy_destination_nonempty [simp]: "copy_destination w tgt pp \<noteq> []"
  by (simp add: copy_destination_def Let_def)

lemma copy_destination_neq:
  "Path_name pp \<noteq> Path_name pp' \<Longrightarrow> copy_destination w tgt pp \<noteq> copy_destination w' tgt' pp'"
  by (metis copy_destination_name)

lemma copy_destination_is_dir:
  "(\<And>q. Path_is_dir w' q = Path_is_dir w q) \<Longrightarrow>
     copy_destination w' tgt pp = copy_destination w tgt pp"
  by (simp add: copy_destination_def)

lemma shutil_copy2_cases:
  assumes "shutil_copy2 src dst w = (r, w')"
  shows "(r = Return ()
          \<and> (\<exists>c. node_at w src = Some (File c)
                \<and> src \<noteq> (if Path_is_dir w dst then dst @ [Path_name src] else dst)
                \<and> w' = log (Wrote (if Path_is_dir w dst then dst @ [Path_name src] else dst) c)
                         (put (if Path_is_dir w dst then dst @ [Path_name src] else dst) (File c) w))
          \<and> node_at w (if Path_is_dir w dst then dst @ [Path_name src] else dst) \<noteq> Some Dir)
       \<or> (\<exists>e. r = Raise e \<and> w' = w)"
proof -
  define d where "d = (if Path_is_dir w dst then dst @ [Path_name src] else dst)"
  have run: "(if src = d \<and> Path_exists w src then (Raise SameFileError, w)
              else case node_at w src of None \<Rightarrow> (Raise (stat_error w src), w)
                   | Some Dir \<Rightarrow> (Raise IsADirectoryError, w)
                   | Some (File c) \<Rightarrow> write_file d c w) = (r, w')"
    using assms unfolding shutil_copy2_def Let_def d_def .
  have "(r = Return () \<and> (\<exists>c. node_at w src = Some (File c) \<and> src \<noteq> d
            \<and> w' = log (Wrote d c) (put d (File c) w)) \<and> node_at w d \<noteq> Some Dir)
       \<or> (\<exists>e. r = Raise e \<and> w' = w)"
  proof (cases "src = d \<and> Path_exists w src")
    case True
    with run show ?thesis by auto
  next
    case False
    with run have run': "(case node_at w src of None \<Rightarrow> (Raise (stat_error w src), w)
                   | Some Dir \<Rightarrow> (Raise IsADirectoryError, w)
                   | Some (File c) \<Rightarrow> write_file d c w) = (r, w')"
      by (simp only: if_False)
    show ?thesis
    proof (cases "node_at w src")
      case None
      with run' show ?thesis by auto
    next
      case (Some n)
      show ?thesis
      proof (cases n)
        case Dir
        with Some run' show ?thesis by auto
      next
        case (File c)
        with Some run' have wf: "write_file d c w = (r, w')" by simp
        from Some File False have "src \<noteq> d" by (auto simp: Path_exists_def)
        with write_file_cases [OF wf] Some File show ?thesis by auto
      qed
    qed
  qed
  then show ?thesis by (simp add: d_def)
qed

lemma Image_save_cases:
  assumes "Image_save img p w = (r, w')"
  shows "(r = Return () \<and> w' = log (Wrote p (Png img)) (put p (File (Png img)) w) \<and> p \<noteq> []
           \<and> node_at w p \<noteq> Some Dir)
       \<or> (\<exists>e. r = Raise e \<and> w' = w)"
proof (cases "lower (splitext_ext (Path_name p)) = ''.png''")
  case True
  with assms have "write_file p (Png img) w = (r, w')" by (simp add: Image_save_def Let_def)
  from write_file_cases [OF this] show ?thesis .
next
  case False
  with assms show ?thesis by (auto simp: Image_save_def Let_def)
qed

lemma loop_body_cases:
  assumes "loop_body tgt img pp w = (r, w')"
  defines "d \<equiv> copy_destination w tgt pp"
  shows "(r = Return () \<and> (\<exists>c. w' = log (Wrote d c) (put d (File c) w)
            \<and> (if is_diamond_texture pp then node_at w pp = Some (File c) \<and> pp \<noteq> d
               else c = Png img \<and> d = tgt @ [Path_name pp]))
          \<and> node_at w d \<noteq> Some Dir)
       \<or> (\<exists>e. r = Raise e \<and> w' = w)"
proof (cases "is_diamond_texture pp")
  case True
  with assms(1) have c: "shutil_copy2 pp (tgt @ [Path_name pp]) w = (r, w')"
    by (simp add: loop_body_def Let_def)
  have "d = (if Path_is_dir w (tgt @ [Path_name pp]) then (tgt @ [Path_name pp]) @ [Path_name pp]
             else tgt @ [Path_name pp])"
    by (simp add: d_def copy_destination_def Let_def)
  with shutil_copy2_cases [OF c] True show ?thesis by auto
next
  case False
  with assms(1) have c: "Image_save img (tgt @ [Path_name pp]) w = (r, w')"
    by (simp add: loop_body_def Let_def)
  from Image_save_cases [OF c] False show ?thesis
    by (auto simp: d_def copy_destination_def Let_def Path_is_dir_def)
qed

lemma loop_body_is_dir:
  assumes "loop_body tgt img pp w = (r, w')"
  shows "Path_is_dir w' q = Path_is_dir w q"
  using loop_body_cases [OF assms]
  by (auto simp: Path_is_dir_def node_at_put split: if_splits)


lemma loop_body_uuid:
  assumes "loop_body tgt img pp w = (r, w')"
  shows "uuid_source w' = uuid_source w \<and> uuid_drawn w' = uuid_drawn w"
  using loop_body_cases [OF assms] by auto

lemma for_png_path_is_dir:
  "for_png_path tgt img ps w = (r, w') \<Longrightarrow> Path_is_dir w' q = Path_is_dir w q"
proof (induction ps arbitrary: w)
  case Nil
  then show ?case by simp
next
  case (Cons p ps)
  obtain r1 w1 where b: "loop_body tgt img p w = (r1, w1)" by (cases "loop_body tgt img p w")
  show ?case
  proof (cases r1)
    case (Raise e)
    with Cons.prems b have "w' = w1" by simp
    with loop_body_is_dir [OF b] show ?thesis by simp
  next
    case (Return u)
    with Cons.prems b have "for_png_path tgt img ps w1 = (r, w')" by simp
    from Cons.IH [OF this] loop_body_is_dir [OF b] show ?thesis by simp
  qed
qed

lemma for_png_path_uuid:
  "for_png_path tgt img ps w = (r, w') \<Longrightarrow>
     uuid_source w' = uuid_source w \<and> uuid_drawn w' = uuid_drawn w"
proof (induction ps arbitrary: w)
  case Nil
  then show ?case by simp
next
  case (Cons p ps)
  obtain r1 w1 where b: "loop_body tgt img p w = (r1, w1)" by (cases "loop_body tgt img p w")
  show ?case
  proof (cases r1)
    case (Raise e)
    with Cons.prems b have "w' = w1" by simp
    with loop_body_uuid [OF b] show ?thesis by simp
  next
    case (Return u)
    with Cons.prems b have "for_png_path tgt img ps w1 = (r, w')" by simp
    from Cons.IH [OF this] loop_body_uuid [OF b] show ?thesis by simp
  qed
qed


lemma for_png_path_append:
  "for_png_path tgt img (ps @ qs) w =
     (case for_png_path tgt img ps w of
        (Raise e, w') \<Rightarrow> (Raise e, w')
      | (Return u, w') \<Rightarrow> for_png_path tgt img qs w')"
  by (induction ps arbitrary: w) (auto split: prod.splits result.splits)

lemma for_png_path_first_failure:
  "for_png_path tgt img ps w = (Return (), w1) \<Longrightarrow>
   loop_body tgt img png_path w1 = (Raise e, w2) \<Longrightarrow>
   for_png_path tgt img (ps @ png_path # rest) w = (Raise e, w2)"
  by (simp add: for_png_path_append)

section \<open>Globbing and the result of the loop\<close>

lemma written_paths_append [simp]:
  "written_paths (xs @ ys) = written_paths xs @ written_paths ys"
  by (induction xs rule: written_paths.induct) simp_all


lemma for_png_path_trace:
  "for_png_path tgt img ps w = (r, w') \<Longrightarrow>
     \<exists>evs. trace w' = trace w @ evs \<and> (\<forall>e \<in> set evs. \<exists>p c. e = Wrote p c \<and> strict_prefix tgt p)
       \<and> prefix (written_paths evs) (map (copy_destination w tgt) ps)
       \<and> (r = Return () \<longrightarrow> written_paths evs = map (copy_destination w tgt) ps)"
proof (induction ps arbitrary: w)
  case Nil
  then show ?case by simp
next
  case (Cons p ps)
  obtain r1 w1 where b: "loop_body tgt img p w = (r1, w1)" by (cases "loop_body tgt img p w")
  have cd: "copy_destination w1 tgt q = copy_destination w tgt q" for q
    by (rule copy_destination_is_dir) (rule loop_body_is_dir [OF b])
  let ?d = "copy_destination w tgt p"
  have sp: "strict_prefix tgt ?d"
    by (auto simp: copy_destination_def Let_def strict_prefix_def)
  from loop_body_cases [OF b] show ?case
  proof
    assume "\<exists>e. r1 = Raise e \<and> w1 = w"
    with Cons.prems b have "w' = w" "r \<noteq> Return ()" by auto
    then show ?thesis by (intro exI [of _ "[]"]) simp
  next
    assume a: "r1 = Return () \<and> (\<exists>c. w1 = log (Wrote ?d c) (put ?d (File c) w)
            \<and> (if is_diamond_texture p then node_at w p = Some (File c) \<and> p \<noteq> ?d
               else c = Png img \<and> ?d = tgt @ [Path_name p]))
          \<and> node_at w ?d \<noteq> Some Dir"
    then obtain c where w1: "w1 = log (Wrote ?d c) (put ?d (File c) w)" by blast
    from a Cons.prems b have l: "for_png_path tgt img ps w1 = (r, w')" by simp
    from Cons.IH [OF l, unfolded cd] obtain evs where
      evs: "trace w' = trace w1 @ evs" "\<forall>e \<in> set evs. \<exists>p c. e = Wrote p c \<and> strict_prefix tgt p"
        "prefix (written_paths evs) (map (copy_destination w tgt) ps)"
        "r = Return () \<longrightarrow> written_paths evs = map (copy_destination w tgt) ps"
      by blast
    show ?thesis
      using evs sp by (intro exI [of _ "Wrote ?d c # evs"]) (simp add: w1)
  qed
qed


lemma distinct_iterdir: "distinct (iterdir w d)"
  by (simp add: iterdir_def)

lemma glob_names: "map Path_name (Path_glob_star w d ext) = filter (\<lambda>n. endswith n ext) (iterdir w d)"
  by (simp add: Path_glob_star_def Path_name_def comp_def)

lemma glob_names_distinct: "distinct (map Path_name (Path_glob_star w d ext))"
  by (simp add: glob_names distinct_iterdir)

lemma glob_distinct: "distinct (Path_glob_star w d ext)"
  using glob_names_distinct [of w d ext] by (simp add: distinct_map)



section \<open>The textures written by a run\<close>





lemma not_prefix_snoc2: "\<not> prefix (tgt @ [n, m]) tgt"
  by (auto simp: prefix_def)




lemma run_pair: "fst x = Return () \<Longrightarrow> x = (Return (), snd x)"
  by (cases x) simp







lemma write_manifest_Return:
  assumes "write_manifest pack_root nm descr w = (Return (), w')"
  obtains w1 qs where "Path_mkdir pack_root w = (Return (), w1)"
    "grown_by_dirs w w1 qs" "\<forall>q \<in> set qs. prefix q pack_root \<and> q \<noteq> []"
    "Path_is_dir w1 pack_root"
    "w' = log (Wrote (pack_root @ [''manifest.json''])
                 (Json_text (manifest_json nm descr (uuid_source w (uuid_drawn w))
                    (uuid_source w (Suc (uuid_drawn w))))))
            (put (pack_root @ [''manifest.json''])
               (File (Json_text (manifest_json nm descr (uuid_source w (uuid_drawn w))
                  (uuid_source w (Suc (uuid_drawn w))))))
               (w1\<lparr>uuid_drawn := Suc (Suc (uuid_drawn w))\<rparr>))"
proof -
  obtain r1 w1 where m: "Path_mkdir pack_root w = (r1, w1)" by (cases "Path_mkdir pack_root w")
  from assms m have r1: "r1 = Return ()"
    by (cases r1) (auto simp: write_manifest_def and_then_def)
  from Path_mkdir_shape [OF m] r1 obtain qs where
    g: "grown_by_dirs w w1 qs" "\<forall>q \<in> set qs. prefix q pack_root \<and> q \<noteq> []"
      "Path_is_dir w1 pack_root"
    by blast
  from g(1) have u: "uuid_source w1 = uuid_source w" "uuid_drawn w1 = uuid_drawn w"
    by (simp_all add: grown_by_dirs_def)
  let ?c = "Json_text (manifest_json nm descr (uuid_source w (uuid_drawn w))
              (uuid_source w (Suc (uuid_drawn w))))"
  from assms m r1 u
  have wf: "write_file (pack_root @ [''manifest.json'']) ?c
              (w1\<lparr>uuid_drawn := Suc (Suc (uuid_drawn w))\<rparr>) = (Return (), w')"
    by (simp add: write_manifest_def and_then_def uuid4_def Let_def Path_write_text_def
          json_dumps_def)
  from write_file_cases [OF wf]
  have "w' = log (Wrote (pack_root @ [''manifest.json'']) ?c)
               (put (pack_root @ [''manifest.json'']) (File ?c)
                  (w1\<lparr>uuid_drawn := Suc (Suc (uuid_drawn w))\<rparr>))"
    by auto
  with m r1 g that show thesis by blast
qed

lemma example_uuids_inj: "inj example_uuids"
proof (rule injI)
  fix x y assume "example_uuids x = example_uuids y"
  then have "length (example_uuids x) = length (example_uuids y)" by simp
  then show "x = y" by (simp add: example_uuids_def)
qed

lemma manifest_json_uuids:
  "manifest_json nm descr h m = manifest_json nm2 descr2 h2 m2
     \<longleftrightarrow> nm = nm2 \<and> descr = descr2 \<and> h = h2 \<and> m = m2"
  by (auto simp: manifest_json_def)



lemma rfind_bounds: "- 1 \<le> rfind s c \<and> rfind s c < int (length s)"
  by (induction s) auto

lemma Path_name_snoc [simp]: "Path_name (d @ [n]) = n"
  by (simp add: Path_name_def)














lemma uuid_after_archive:
  "uuid_source (after_archive wa root temp out) = uuid_source wa"
  "uuid_drawn (after_archive wa root temp out) = uuid_drawn wa"
  by (simp_all add: after_archive_def Let_def)


section \<open>Failure handling\<close>

text \<open>
  C2. The claim holds of the resolved path, not of the path as given: \<^verbatim>\<open>main\<close> tests
  \<^verbatim>\<open>Path(args.source_textures).resolve()\<close>, and \<^verbatim>\<open>nonexistent/..\<close>, which is not a
  directory, resolves to the current directory. In the world \<open>w_home\<close> the run with that
  argument raises nothing and builds the pack.
\<close>

theorem given_source_path_counterexample:
  "\<not> given_is_dir w_home (source_textures a_dotdot)
   \<and> fst (main a_dotdot w_home) = Return ()
   \<and> trace (snd (main a_dotdot w_home)) \<noteq> []"
  by (simp add: run_defs given_is_dir_def w_home_def a_dotdot_def)

text \<open>
  C2, as it holds. The two existence checks raise \<^verbatim>\<open>FileNotFoundError\<close> and return the
  world as it was given: no file or directory was created or changed and nothing was
  logged. The check of \<^verbatim>\<open>main\<close> is made on the resolved source path. There is no other
  failure handling: an exception of \<^verbatim>\<open>resolve\<close>, of a stage of \<^verbatim>\<open>main\<close>, of the
  \<^verbatim>\<open>mkdir\<close> of \<^verbatim>\<open>make_transparent_blocks\<close> or of the first texture that fails is the
  exception of the caller, in the world the failing call left.
\<close>

theorem only_existence_checks_handle_failure:
  "(Path_resolve w (source_textures a) = Return source_root \<and> \<not> Path_is_dir w source_root \<longrightarrow>
      main a w = (Raise (source_not_found source_root), w))
   \<and> (\<not> Path_is_dir w source_blocks \<longrightarrow>
      make_transparent_blocks source_blocks target_blocks w
        = (Raise (blocks_not_found source_blocks), w))
   \<and> (\<exists>m. source_not_found source_root = FileNotFoundError m)
   \<and> (\<exists>m. blocks_not_found source_blocks = FileNotFoundError m)
   \<and> (Path_resolve w (source_textures a) = Raise e \<longrightarrow> main a w = (Raise e, w))
   \<and> (Path_resolve w (source_textures a) = Return source_root \<and> Path_is_dir w source_root \<longrightarrow>
        (Path_resolve w (output_pack a) = Raise e \<longrightarrow> main a w = (Raise e, w))
      \<and> (Path_resolve w (output_pack a) = Return pack_root \<longrightarrow>
          (make_transparent_blocks (source_root @ [''blocks''])
             (pack_root @ [''textures'', ''blocks'']) w = (Raise e, w1)
           \<longrightarrow> main a w = (Raise e, w1))
        \<and> (make_transparent_blocks (source_root @ [''blocks''])
             (pack_root @ [''textures'', ''blocks'']) w = (Return (), w1) \<longrightarrow>
            (write_manifest pack_root (pack_name a) (pack_description a) w1 = (Raise e, w2)
             \<longrightarrow> main a w = (Raise e, w2))
          \<and> (write_manifest pack_root (pack_name a) (pack_description a) w1 = (Return (), w2) \<longrightarrow>
              (write_default_icon pack_root w2 = (Raise e, w3) \<longrightarrow> main a w = (Raise e, w3))
            \<and> (write_default_icon pack_root w2 = (Return (), w3) \<and> \<not> no_mcpack a \<longrightarrow>
                (Path_with_suffix pack_root ''.mcpack'' = Raise e \<longrightarrow> main a w = (Raise e, w3))
              \<and> (Path_with_suffix pack_root ''.mcpack'' = Return mcpack_path
                  \<and> build_mcpack pack_root mcpack_path w3 = (Raise e, w4)
                  \<longrightarrow> main a w = (Raise e, w4)))))))
   \<and> (Path_is_dir w source_blocks \<longrightarrow>
        (Path_mkdir target_blocks w = (Raise e, w1) \<longrightarrow>
           make_transparent_blocks source_blocks target_blocks w = (Raise e, w1))
      \<and> (Path_mkdir target_blocks w = (Return (), w1)
          \<and> Path_glob_star w1 source_blocks ''.png'' = before @ png_path # rest
          \<and> for_png_path target_blocks (Image_new ''RGBA'' (16, 16) (0, 0, 0, 0)) before w1
              = (Return (), w2)
          \<and> loop_body target_blocks (Image_new ''RGBA'' (16, 16) (0, 0, 0, 0)) png_path w2
              = (Raise e, w3)
          \<longrightarrow> make_transparent_blocks source_blocks target_blocks w = (Raise e, w3)))"
proof -
  have checks: "(Path_resolve w (source_textures a) = Return source_root \<and> \<not> Path_is_dir w source_root \<longrightarrow>
      main a w = (Raise (source_not_found source_root), w))
   \<and> (\<not> Path_is_dir w source_blocks \<longrightarrow>
      make_transparent_blocks source_blocks target_blocks w
        = (Raise (blocks_not_found source_blocks), w))
   \<and> (\<exists>m. source_not_found source_root = FileNotFoundError m)
   \<and> (\<exists>m. blocks_not_found source_blocks = FileNotFoundError m)
   \<and> (Path_resolve w (source_textures a) = Raise e \<longrightarrow> main a w = (Raise e, w))"
    by (simp add: main_def make_transparent_blocks_def source_not_found_def blocks_not_found_def)
  have stages: "Path_resolve w (source_textures a) = Return source_root \<and> Path_is_dir w source_root \<longrightarrow>
        (Path_resolve w (output_pack a) = Raise e \<longrightarrow> main a w = (Raise e, w))
      \<and> (Path_resolve w (output_pack a) = Return pack_root \<longrightarrow>
          (make_transparent_blocks (source_root @ [''blocks''])
             (pack_root @ [''textures'', ''blocks'']) w = (Raise e, w1)
           \<longrightarrow> main a w = (Raise e, w1))
        \<and> (make_transparent_blocks (source_root @ [''blocks''])
             (pack_root @ [''textures'', ''blocks'']) w = (Return (), w1) \<longrightarrow>
            (write_manifest pack_root (pack_name a) (pack_description a) w1 = (Raise e, w2)
             \<longrightarrow> main a w = (Raise e, w2))
          \<and> (write_manifest pack_root (pack_name a) (pack_description a) w1 = (Return (), w2) \<longrightarrow>
              (write_default_icon pack_root w2 = (Raise e, w3) \<longrightarrow> main a w = (Raise e, w3))
            \<and> (write_default_icon pack_root w2 = (Return (), w3) \<and> \<not> no_mcpack a \<longrightarrow>
                (Path_with_suffix pack_root ''.mcpack'' = Raise e \<longrightarrow> main a w = (Raise e, w3))
              \<and> (Path_with_suffix pack_root ''.mcpack'' = Return mcpack_path
                  \<and> build_mcpack pack_root mcpack_path w3 = (Raise e, w4)
                  \<longrightarrow> main a w = (Raise e, w4))))))"
    by (simp add: main_def and_then_def Let_def)
  have blocks: "Path_is_dir w source_blocks \<longrightarrow>
        (Path_mkdir target_blocks w = (Raise e, w1) \<longrightarrow>
           make_transparent_blocks source_blocks target_blocks w = (Raise e, w1))
      \<and> (Path_mkdir target_blocks w = (Return (), w1)
          \<and> Path_glob_star w1 source_blocks ''.png'' = before @ png_path # rest
          \<and> for_png_path target_blocks (Image_new ''RGBA'' (16, 16) (0, 0, 0, 0)) before w1
              = (Return (), w2)
          \<and> loop_body target_blocks (Image_new ''RGBA'' (16, 16) (0, 0, 0, 0)) png_path w2
              = (Raise e, w3)
          \<longrightarrow> make_transparent_blocks source_blocks target_blocks w = (Raise e, w3))"
    by (simp add: make_transparent_blocks_def and_then_def Let_def for_png_path_first_failure)
  from checks stages blocks show ?thesis by (intro conjI) blast+
qed

theorem only_existence_checks_witness:
  "main a_example w_empty = (Raise (source_not_found [''src'']), w_empty)
   \<and> make_transparent_blocks [''src'', ''blocks''] [''out''] w_no_blocks
       = (Raise (blocks_not_found [''src'', ''blocks'']), w_no_blocks)
   \<and> main a_example w_dist_file = (Raise NotADirectoryError, w_dist_file)
   \<and> make_transparent_blocks [''src'', ''blocks''] [''out''] w_hidden
       = (Raise (ValueError ''unknown file extension: ''),
          log (Wrote [''out'', ''stone.png''] (Png (Image_new ''RGBA'' (16, 16) (0, 0, 0, 0))))
            (put [''out'', ''stone.png''] (File (Png (Image_new ''RGBA'' (16, 16) (0, 0, 0, 0))))
               w_hidden))"
proof -
  let ?img = "Image_new ''RGBA'' (16, 16) (0, 0, 0, 0)"
  let ?w3 = "log (Wrote [''out'', ''stone.png''] (Png ?img))
               (put [''out'', ''stone.png''] (File (Png ?img)) w_hidden)"
  have r1: "Path_resolve w_empty (source_textures a_example) = Return [''src'']"
    by (simp add: Path_resolve_def realpath_step_def startswith_def w_empty_def a_example_def)
  have d1: "\<not> Path_is_dir w_empty [''src'']"
    by (simp add: Path_is_dir_def node_at_def w_empty_def)
  from only_existence_checks_handle_failure
         [where w = w_empty and a = a_example and source_root = "[''src'']"] r1 d1
  have a: "main a_example w_empty = (Raise (source_not_found [''src'']), w_empty)"
    by blast
  have d2: "\<not> Path_is_dir w_no_blocks [''src'', ''blocks'']"
    by (simp add: Path_is_dir_def node_at_def w_no_blocks_def)
  from only_existence_checks_handle_failure
         [where w = w_no_blocks and source_blocks = "[''src'', ''blocks'']"
            and target_blocks = "[''out'']"] d2
  have b: "make_transparent_blocks [''src'', ''blocks''] [''out''] w_no_blocks
             = (Raise (blocks_not_found [''src'', ''blocks'']), w_no_blocks)"
    by blast
  have r3: "Path_resolve w_dist_file (source_textures a_example) = Return [''src'']"
    "Path_resolve w_dist_file (output_pack a_example) = Return [''dist'', ''Pack'']"
    by (simp_all add: Path_resolve_def realpath_step_def startswith_def w_dist_file_def
          a_example_def)
  have d3: "Path_is_dir w_dist_file [''src'']" "Path_is_dir w_dist_file [''src'', ''blocks'']"
    by (simp_all add: Path_is_dir_def node_at_def w_dist_file_def)
  have m3: "Path_mkdir [''dist'', ''Pack'', ''textures'', ''blocks''] w_dist_file
              = (Raise NotADirectoryError, w_dist_file)"
    by (simp add: os_mkdir_def ancestor_error_def node_at_def Path_is_dir_def w_dist_file_def)
  from only_existence_checks_handle_failure
         [where w = w_dist_file and source_blocks = "[''src'', ''blocks'']"
            and target_blocks = "[''dist'', ''Pack'', ''textures'', ''blocks'']"
            and e = NotADirectoryError and ?w1.0 = w_dist_file] d3(2) m3
  have s3: "make_transparent_blocks [''src'', ''blocks'']
              [''dist'', ''Pack'', ''textures'', ''blocks''] w_dist_file
              = (Raise NotADirectoryError, w_dist_file)"
    by blast
  from only_existence_checks_handle_failure
         [where w = w_dist_file and a = a_example and source_root = "[''src'']"
            and pack_root = "[''dist'', ''Pack'']"
            and e = NotADirectoryError and ?w1.0 = w_dist_file] r3 d3(1) s3
  have c: "main a_example w_dist_file = (Raise NotADirectoryError, w_dist_file)"
    by simp
  have d4: "Path_is_dir w_hidden [''src'', ''blocks'']"
    by (simp add: Path_is_dir_def node_at_def w_hidden_def)
  have m4: "Path_mkdir [''out''] w_hidden = (Return (), w_hidden)"
    by (simp add: os_mkdir_def ancestor_error_def node_at_def Path_is_dir_def w_hidden_def)
  have g4: "Path_glob_star w_hidden [''src'', ''blocks''] ''.png''
              = [[''src'', ''blocks'', ''stone.png'']] @ [''src'', ''blocks'', ''.png''] # []"
    by (simp add: Path_glob_star_def iterdir_def endswith_def w_hidden_def)
  have l4: "for_png_path [''out''] ?img [[''src'', ''blocks'', ''stone.png'']] w_hidden
              = (Return (), ?w3)"
    by (simp add: loop_body_def is_diamond_texture_def Path_stem_def Path_name_def lower_def
          char_lower_def startswith_def Image_save_def splitext_ext_def write_file_def
          ancestor_error_def node_at_def Let_def w_hidden_def)
  have f4: "loop_body [''out''] ?img [''src'', ''blocks'', ''.png''] ?w3
              = (Raise (ValueError ''unknown file extension: ''), ?w3)"
    by (simp add: loop_body_def is_diamond_texture_def Path_stem_def Path_name_def lower_def
          char_lower_def startswith_def Image_save_def splitext_ext_def Let_def)
  from only_existence_checks_handle_failure
         [where w = w_hidden and source_blocks = "[''src'', ''blocks'']"
            and target_blocks = "[''out'']" and ?w1.0 = w_hidden
            and before = "[[''src'', ''blocks'', ''stone.png'']]"
            and png_path = "[''src'', ''blocks'', ''.png'']" and rest = "[]"
            and ?w2.0 = ?w3 and ?w3.0 = ?w3 and e = "ValueError ''unknown file extension: ''"]
       d4 m4 g4 l4 f4
  have d: "make_transparent_blocks [''src'', ''blocks''] [''out''] w_hidden
             = (Raise (ValueError ''unknown file extension: ''), ?w3)"
    by blast
  from a b c d show ?thesis by simp
qed

section \<open>The pack icon\<close>

text \<open>
  C8. \<^verbatim>\<open>write_default_icon\<close> keeps an icon that is already there and is idempotent: if
  \<^verbatim>\<open>pack_root/pack_icon.png\<close> exists the call returns and the world is unchanged, and a
  second call, made in the world the first one leaves, has the outcome of the first and
  changes nothing more.
\<close>

theorem write_default_icon_idempotent:
  "(Path_exists w (pack_root @ [''pack_icon.png'']) \<longrightarrow>
      write_default_icon pack_root w = (Return (), w))
   \<and> fst (write_default_icon pack_root (snd (write_default_icon pack_root w)))
       = fst (write_default_icon pack_root w)
   \<and> snd (write_default_icon pack_root (snd (write_default_icon pack_root w)))
       = snd (write_default_icon pack_root w)"
proof -
  let ?p = "pack_root @ [''pack_icon.png'']"
  let ?c = "Png (Image_new ''RGBA'' (256, 256) (0, 0, 0, 0))"
  have ex: "write_default_icon pack_root w = (Return (), w)" if "Path_exists w ?p"
    using that by (simp add: write_default_icon_def)
  have twice: "write_default_icon pack_root (snd (write_default_icon pack_root w))
                 = write_default_icon pack_root w"
  proof (cases "Path_exists w ?p")
    case True
    then show ?thesis by (simp add: ex)
  next
    case False
    then have eq: "write_default_icon pack_root w = write_file ?p ?c w"
      by (simp add: write_default_icon_def Image_save_def Path_name_def splitext_pack_icon)
    obtain r w' where rw: "write_file ?p ?c w = (r, w')"
      by (cases "write_file ?p ?c w")
    from write_file_cases [OF rw] show ?thesis
    proof
      assume a: "r = Return () \<and> w' = log (Wrote ?p ?c) (put ?p (File ?c) w) \<and> ?p \<noteq> []
                  \<and> node_at w ?p \<noteq> Some Dir"
      then have "Path_exists w' ?p"
        by (simp add: Path_exists_def node_at_put)
      then have "write_default_icon pack_root w' = (Return (), w')"
        by (simp add: write_default_icon_def)
      with a eq rw show ?thesis by simp
    next
      assume "\<exists>e. r = Raise e \<and> w' = w"
      with eq rw show ?thesis by auto
    qed
  qed
  from ex twice show ?thesis by simp
qed

theorem write_default_icon_idempotent_witness:
  "Path_exists w_icon [''pack'', ''pack_icon.png'']
   \<and> write_default_icon [''pack''] w_icon = (Return (), w_icon)
   \<and> node_at (snd (write_default_icon [''pack''] w_icon)) [''pack'', ''pack_icon.png'']
       = Some (File (Bytes [7]))"
proof -
  have e: "Path_exists w_icon ([''pack''] @ [''pack_icon.png''])"
    by (simp add: Path_exists_def node_at_def w_icon_def)
  with write_default_icon_idempotent [of w_icon "[''pack'']"]
  have r: "write_default_icon [''pack''] w_icon = (Return (), w_icon)"
    by simp
  have n: "node_at w_icon [''pack'', ''pack_icon.png''] = Some (File (Bytes [7]))"
    by (simp add: node_at_def w_icon_def)
  from e r n show ?thesis by simp
qed

section \<open>Copying and blanking the textures\<close>






section \<open>The manifest\<close>

text \<open>
  C10. When \<^verbatim>\<open>write_manifest\<close> returns, \<^verbatim>\<open>manifest.json\<close> holds the manifest made from
  the name, the description and the next two values of \<^verbatim>\<open>uuid.uuid4()\<close>, header first,
  whatever was at that path before, and the write is the last thing done; two values have
  been drawn. A later call, in any world that has drawn at least those two values from the
  same source, writes a manifest whose two UUIDs are the values it draws itself; they differ
  from the earlier two, and the manifest from the earlier one, when the source does not
  repeat a value (which is what random UUIDs are taken to give).
\<close>

theorem write_manifest_overwrites_with_fresh_uuids:
  assumes "write_manifest pack_root nm descr w = (Return (), w')"
  shows "node_at w' (pack_root @ [''manifest.json''])
           = Some (File (json_dumps (manifest_json nm descr (uuid_source w (uuid_drawn w))
                (uuid_source w (uuid_drawn w + 1)))))
       \<and> (\<exists>evs. trace w' = trace w @ evs @ [Wrote (pack_root @ [''manifest.json''])
                (json_dumps (manifest_json nm descr (uuid_source w (uuid_drawn w))
                   (uuid_source w (uuid_drawn w + 1))))])
       \<and> uuid_source w' = uuid_source w \<and> uuid_drawn w' = uuid_drawn w + 2
       \<and> (\<forall>nm2 descr2 v v'.
            write_manifest pack_root nm2 descr2 v = (Return (), v')
            \<and> uuid_source v = uuid_source w \<and> uuid_drawn w + 2 \<le> uuid_drawn v
            \<and> inj (uuid_source w) \<longrightarrow>
            node_at v' (pack_root @ [''manifest.json''])
              = Some (File (json_dumps (manifest_json nm2 descr2 (uuid_source w (uuid_drawn v))
                   (uuid_source w (uuid_drawn v + 1)))))
            \<and> uuid_source w (uuid_drawn v) \<notin> {uuid_source w (uuid_drawn w),
                   uuid_source w (uuid_drawn w + 1)}
            \<and> uuid_source w (uuid_drawn v + 1) \<notin> {uuid_source w (uuid_drawn w),
                   uuid_source w (uuid_drawn w + 1)}
            \<and> node_at v' (pack_root @ [''manifest.json''])
                \<noteq> node_at w' (pack_root @ [''manifest.json'']))"
proof -
  have node: "node_at u' (pack_root @ [''manifest.json''])
           = Some (File (json_dumps (manifest_json n d (uuid_source u (uuid_drawn u))
                (uuid_source u (uuid_drawn u + 1)))))"
    if "write_manifest pack_root n d u = (Return (), u')" for n d u u'
    using that by (rule write_manifest_Return) (simp add: node_at_put json_dumps_def)
  have first: "node_at w' (pack_root @ [''manifest.json''])
           = Some (File (json_dumps (manifest_json nm descr (uuid_source w (uuid_drawn w))
                (uuid_source w (uuid_drawn w + 1)))))"
    by (rule node [OF assms])
  have tr: "\<exists>evs. trace w' = trace w @ evs @ [Wrote (pack_root @ [''manifest.json''])
                (json_dumps (manifest_json nm descr (uuid_source w (uuid_drawn w))
                   (uuid_source w (uuid_drawn w + 1))))]"
    using assms
  proof (rule write_manifest_Return)
    fix w1 qs
    assume g: "grown_by_dirs w w1 qs"
      and w': "w' = log (Wrote (pack_root @ [''manifest.json''])
                 (Json_text (manifest_json nm descr (uuid_source w (uuid_drawn w))
                    (uuid_source w (Suc (uuid_drawn w))))))
            (put (pack_root @ [''manifest.json''])
               (File (Json_text (manifest_json nm descr (uuid_source w (uuid_drawn w))
                  (uuid_source w (Suc (uuid_drawn w))))))
               (w1\<lparr>uuid_drawn := Suc (Suc (uuid_drawn w))\<rparr>))"
    from g have "trace w1 = trace w @ map Made_dir qs" by (simp add: grown_by_dirs_def)
    with w' show ?thesis by (simp add: json_dumps_def put_def log_def)
  qed
  have uu: "uuid_source w' = uuid_source w \<and> uuid_drawn w' = uuid_drawn w + 2"
    using assms
  proof (rule write_manifest_Return)
    fix w1 qs
    assume g: "grown_by_dirs w w1 qs"
      and w': "w' = log (Wrote (pack_root @ [''manifest.json''])
                 (Json_text (manifest_json nm descr (uuid_source w (uuid_drawn w))
                    (uuid_source w (Suc (uuid_drawn w))))))
            (put (pack_root @ [''manifest.json''])
               (File (Json_text (manifest_json nm descr (uuid_source w (uuid_drawn w))
                  (uuid_source w (Suc (uuid_drawn w))))))
               (w1\<lparr>uuid_drawn := Suc (Suc (uuid_drawn w))\<rparr>))"
    from g have "uuid_source w1 = uuid_source w" by (simp add: grown_by_dirs_def)
    with w' show ?thesis by (simp add: put_def log_def)
  qed
  have later: "node_at v' (pack_root @ [''manifest.json''])
              = Some (File (json_dumps (manifest_json nm2 descr2 (uuid_source w (uuid_drawn v))
                   (uuid_source w (uuid_drawn v + 1)))))
            \<and> uuid_source w (uuid_drawn v) \<notin> {uuid_source w (uuid_drawn w),
                   uuid_source w (uuid_drawn w + 1)}
            \<and> uuid_source w (uuid_drawn v + 1) \<notin> {uuid_source w (uuid_drawn w),
                   uuid_source w (uuid_drawn w + 1)}
            \<and> node_at v' (pack_root @ [''manifest.json''])
                \<noteq> node_at w' (pack_root @ [''manifest.json''])"
    if run: "write_manifest pack_root nm2 descr2 v = (Return (), v')"
      and src: "uuid_source v = uuid_source w" and drawn: "uuid_drawn w + 2 \<le> uuid_drawn v"
      and inj: "inj (uuid_source w)"
    for nm2 descr2 v v'
  proof -
    from node [OF run] src
    have second: "node_at v' (pack_root @ [''manifest.json''])
              = Some (File (json_dumps (manifest_json nm2 descr2 (uuid_source w (uuid_drawn v))
                   (uuid_source w (uuid_drawn v + 1)))))"
      by simp
    from inj drawn have ne: "uuid_source w (uuid_drawn v) \<noteq> uuid_source w (uuid_drawn w)"
      "uuid_source w (uuid_drawn v) \<noteq> uuid_source w (uuid_drawn w + 1)"
      "uuid_source w (uuid_drawn v + 1) \<noteq> uuid_source w (uuid_drawn w)"
      "uuid_source w (uuid_drawn v + 1) \<noteq> uuid_source w (uuid_drawn w + 1)"
      by (auto dest!: injD)
    from first second ne show ?thesis
      by (simp add: json_dumps_def manifest_json_uuids)
  qed
  from first tr uu later show ?thesis by blast
qed

theorem write_manifest_overwrites_witness:
  "node_at w_manifest [''pack'', ''manifest.json''] = Some (File (Bytes [5]))
   \<and> node_at (snd (write_manifest [''pack''] ''XRay'' ''Hides blocks'' w_manifest))
       [''pack'', ''manifest.json'']
     = Some (File (json_dumps (manifest_json ''XRay'' ''Hides blocks'' ''u'' ''uu'')))
   \<and> node_at (snd (write_manifest [''pack''] ''XRay'' ''Hides blocks''
                (snd (write_manifest [''pack''] ''XRay'' ''Hides blocks'' w_manifest))))
       [''pack'', ''manifest.json'']
     = Some (File (json_dumps (manifest_json ''XRay'' ''Hides blocks'' ''uuu'' ''uuuu'')))"
proof -
  let ?w1 = "snd (write_manifest [''pack''] ''XRay'' ''Hides blocks'' w_manifest)"
  let ?w2 = "snd (write_manifest [''pack''] ''XRay'' ''Hides blocks'' ?w1)"
  have "fst (write_manifest [''pack''] ''XRay'' ''Hides blocks'' w_manifest) = Return ()"
    by (simp add: run_defs w_manifest_def)
  then have run1: "write_manifest [''pack''] ''XRay'' ''Hides blocks'' w_manifest
                     = (Return (), ?w1)"
    by (rule run_pair)
  note t = write_manifest_overwrites_with_fresh_uuids [OF run1]
  have old: "node_at w_manifest [''pack'', ''manifest.json''] = Some (File (Bytes [5]))"
    by (simp add: node_at_def w_manifest_def)
  have src: "uuid_source w_manifest = example_uuids" "uuid_drawn w_manifest = 0"
    by (simp_all add: w_manifest_def)
  from t src have a: "node_at ?w1 [''pack'', ''manifest.json'']
     = Some (File (json_dumps (manifest_json ''XRay'' ''Hides blocks'' ''u'' ''uu'')))"
    by (simp add: example_uuids_def)
  from t src have u1: "uuid_source ?w1 = example_uuids" "uuid_drawn ?w1 = 2"
    by simp_all
  have "fst (write_manifest [''pack''] ''XRay'' ''Hides blocks'' ?w1) = Return ()"
    by (simp add: run_defs w_manifest_def)
  then have run2: "write_manifest [''pack''] ''XRay'' ''Hides blocks'' ?w1 = (Return (), ?w2)"
    by (rule run_pair)
  from run2 u1 src example_uuids_inj
  have h: "write_manifest [''pack''] ''XRay'' ''Hides blocks'' ?w1 = (Return (), ?w2)
           \<and> uuid_source ?w1 = uuid_source w_manifest
           \<and> uuid_drawn w_manifest + 2 \<le> uuid_drawn ?w1
           \<and> inj (uuid_source w_manifest)"
    by simp
  from t have "\<forall>nm2 descr2 v v'.
            write_manifest [''pack''] nm2 descr2 v = (Return (), v')
            \<and> uuid_source v = uuid_source w_manifest
            \<and> uuid_drawn w_manifest + 2 \<le> uuid_drawn v
            \<and> inj (uuid_source w_manifest) \<longrightarrow>
            node_at v' ([''pack''] @ [''manifest.json''])
              = Some (File (json_dumps (manifest_json nm2 descr2
                   (uuid_source w_manifest (uuid_drawn v))
                   (uuid_source w_manifest (uuid_drawn v + 1)))))"
    by blast
  from this [rule_format, OF h] u1 src
  have b: "node_at ?w2 [''pack'', ''manifest.json'']
     = Some (File (json_dumps (manifest_json ''XRay'' ''Hides blocks'' ''uuu'' ''uuuu'')))"
    by (simp add: example_uuids_def numeral_3_eq_3)
  from old a b show ?thesis by simp
qed

section \<open>The archive\<close>



end
